theory Spec2Isabelle
  imports Complex_Main "HOL-Library.Multiset"
begin

section \<open>Values of the program\<close>

text \<open>
  The drag engine of \<^verbatim>\<open>src/lib/DragService.ts\<close> and the hook of
  \<^verbatim>\<open>useOrderableList\<close>. JavaScript numbers that hold coordinates are modelled as
  reals; array indices and the placeholder indices (which also hold the sentinel \<open>-2\<close>)
  are integers. A value that may be \<^verbatim>\<open>undefined\<close> is an \<open>option\<close>.
  An \<^verbatim>\<open>HTMLElement\<close> is an object with identity: it is a handle into the document,
  so that the engine's \<^verbatim>\<open>downElement\<close> and an entry of its \<^verbatim>\<open>elements\<close> array may
  name the same object.
\<close>

type_synonym handle = nat

record Point =
  point_x :: real
  point_y :: real

record MouseEvent =
  clientX :: real
  clientY :: real

text \<open>The press event also carries its target, an \<^verbatim>\<open>HTMLElement\<close>.\<close>

record ReactMouseEvent = MouseEvent +
  target :: handle

record DOMRect =
  rect_top :: real
  rect_bottom :: real
  rect_left :: real
  rect_right :: real
  rect_width :: real
  rect_height :: real

datatype direction = Up | Down

text \<open>
  A style value is a string; \<open>Px r\<close> is the string the template \<^verbatim>\<open>`${r}px`\<close> produces.
\<close>

datatype css = Css string | Px real

record HTMLElement =
  dataset_rhahOrderableListId :: "string option"
  boundingClientRect :: DOMRect
  style_position :: css
  style_top :: css
  style_left :: css

text \<open>
  The two closures \<^verbatim>\<open>startTracking\<close> creates and hands to
  \<^verbatim>\<open>window.addEventListener\<close>.
\<close>

datatype listener = HandleMove | HandleUp

text \<open>Every \<^verbatim>\<open>throw\<close> of the source, and the \<^verbatim>\<open>TypeError\<close> of reading a
  property of \<^verbatim>\<open>undefined\<close>.\<close>

datatype error =
    BeyondMaxIndex nat int
  | HandlersAlreadyExist
  | NotInDraggingState string
  | HandleMoveMissing
  | HandleUpMissing
  | DownElementUndefined
  | DraggingIdUndefined
  | PlaceholderIndexUndefined
  | VerySuspicious
  | TypeError

text \<open>
  What the engine does to the outside, in the order it does it: calls on \<^verbatim>\<open>window\<close>,
  writes to an element's style, and calls of the two callbacks it was given.
\<close>

datatype effect =
    AddEventListener string listener
  | RemoveEventListener string listener
  | StyleWrite handle string css
  | OnDragTo int
  | OnDragEnd "string list"

text \<open>
  The fields of \<^verbatim>\<open>class DragService\<close>. \<^verbatim>\<open>itemRectCache\<close> is never read or written
  (its uses are commented out) and \<^verbatim>\<open>onDragEnd\<close> is a callback of the caller, whose
  calls are recorded in the trace of the world below.
\<close>

record DragService =
  downId :: "string option"
  downAt :: "Point option"
  lastPoint :: "Point option"
  lastDirection :: "direction option"
  isDragging :: bool
  draggingId :: "string option"
  downElement :: "handle option"
  downRect :: "DOMRect option"
  elements :: "handle option list"
  maxElementIndex :: int
  handleMove :: "listener option"
  handleUp :: "listener option"
  orderedElementIds :: "string list"
  placeholderItemIndex :: "int option"
  placeholderElementIndex :: "int option"

text \<open>
  Everything a handler reads or writes: the engine, the document (each element's data
  attribute, bounding rectangle and style), the listeners on \<^verbatim>\<open>window\<close>,
  \<^verbatim>\<open>process.env.NODE_ENV\<close>, and the trace of effects so far.
\<close>

record world =
  service :: DragService
  document :: "handle \<Rightarrow> HTMLElement"
  window_listeners :: "(string \<times> listener) list"
  NODE_ENV :: string
  trace :: "effect list"

text \<open>
  A call either returns, with the state it leaves, or throws, and then the state it had
  reached when it threw stays behind.
\<close>

type_synonym 's result = "(error \<times> 's) + 's"

text \<open>What a call that returned left behind, read through \<open>f\<close>.\<close>

definition returned :: "'s result \<Rightarrow> ('s \<Rightarrow> 'a) \<Rightarrow> 'a option" where
  "returned r f = (case r of Inl e \<Rightarrow> None | Inr s \<Rightarrow> Some (f s))"

text \<open>The state a call leaves, whether it returned or threw.\<close>

definition left_behind :: "'s result \<Rightarrow> 's" where
  "left_behind r = (case r of Inl (e, s) \<Rightarrow> s | Inr s \<Rightarrow> s)"

definition andThen :: "'s result \<Rightarrow> ('s \<Rightarrow> 's result) \<Rightarrow> 's result" where
  "andThen r f = (case r of Inl e \<Rightarrow> Inl e | Inr s \<Rightarrow> f s)"

section \<open>JavaScript helpers\<close>

text \<open>\<^verbatim>\<open>!v\<close> for a string that may be undefined: the empty string is falsy too.\<close>

definition falsy_string :: "string option \<Rightarrow> bool" where
  "falsy_string v = (case v of None \<Rightarrow> True | Some t \<Rightarrow> t = [])"

text \<open>\<^verbatim>\<open>v || d\<close> for a number that may be undefined: \<open>0\<close> is falsy too.\<close>

definition or_default :: "int option \<Rightarrow> int \<Rightarrow> int" where
  "or_default v d = (case v of None \<Rightarrow> d | Some n \<Rightarrow> if n = 0 then d else n)"

text \<open>\<^verbatim>\<open>xs[i]\<close>: outside the array the read gives \<^verbatim>\<open>undefined\<close>.\<close>

definition array_get :: "'a option list \<Rightarrow> int \<Rightarrow> 'a option" where
  "array_get xs i = (if 0 \<le> i \<and> nat i < length xs then xs ! nat i else None)"

text \<open>\<^verbatim>\<open>xs[i] = v\<close>: beyond the end the array grows, leaving holes.\<close>

definition array_store :: "'a option list \<Rightarrow> nat \<Rightarrow> 'a \<Rightarrow> 'a option list" where
  "array_store xs i v =
     (if i < length xs then xs[i := Some v]
      else xs @ replicate (i - length xs) None @ [Some v])"

text \<open>\<^verbatim>\<open>ids.findIndex(p)\<close>: the first index where \<open>p\<close> holds, or \<open>-1\<close>.\<close>

fun findIndex :: "('a \<Rightarrow> bool) \<Rightarrow> 'a list \<Rightarrow> int" where
  "findIndex p [] = -1"
| "findIndex p (v # vs) =
     (if p v then 0 else (let r = findIndex p vs in if r = -1 then -1 else r + 1))"

text \<open>lodash's \<^verbatim>\<open>without(array, value)\<close>: a new array with every occurrence removed.\<close>

definition without :: "'a list \<Rightarrow> 'a \<Rightarrow> 'a list" where
  "without xs v = filter (\<lambda>u. u \<noteq> v) xs"

section \<open>The engine\<close>

text \<open>The constructor. The hook passes it \<^verbatim>\<open>{ onDragEnd, dragOutIsAllowed }\<close>; the
  constructor destructures \<^verbatim>\<open>onDragEnd\<close> only, so the flag it is given is its second
  argument here and reaches no field.\<close>

definition new_DragService :: "string list \<Rightarrow> bool \<Rightarrow> DragService" where
  "new_DragService ids dragOutIsAllowed =
     \<lparr> downId = None, downAt = None, lastPoint = None, lastDirection = None,
       isDragging = False, draggingId = None, downElement = None, downRect = None,
       elements = [], maxElementIndex = 0, handleMove = None, handleUp = None,
       orderedElementIds = ids, placeholderItemIndex = None,
       placeholderElementIndex = None \<rparr>"

text \<open>\<^verbatim>\<open>assertHTMLTarget\<close> is not part of the sources at hand; the event's target is an
  \<^verbatim>\<open>HTMLElement\<close> by its type here, which is the case the assertion lets through.\<close>

definition onMouseDown :: "ReactMouseEvent \<Rightarrow> world \<Rightarrow> world" where
  "onMouseDown event w =
     w\<lparr> service := (service w)
          \<lparr> downAt := Some \<lparr> point_x = clientX event, point_y = clientY event \<rparr>,
            lastPoint := Some \<lparr> point_x = clientX event, point_y = clientY event \<rparr>,
            lastDirection := None,
            downElement := Some (target event),
            downId := dataset_rhahOrderableListId (document w (target event)),
            downRect := Some (boundingClientRect (document w (target event))) \<rparr> \<rparr>"

definition resetElementList :: "string list \<Rightarrow> DragService \<Rightarrow> DragService" where
  "resetElementList ids s =
     s\<lparr> orderedElementIds := ids, maxElementIndex := int (length ids) - 1 \<rparr>"

text \<open>The index is an array index, as the hook's ref callbacks pass it.\<close>

definition pushElement :: "handle \<Rightarrow> nat \<Rightarrow> DragService \<Rightarrow> DragService result" where
  "pushElement element index s =
     (if int index > maxElementIndex s
      then Inl (BeyondMaxIndex index (maxElementIndex s), s)
      else Inr (s\<lparr> elements := array_store (elements s) index element \<rparr>))"

definition dragDidStartAt :: "string \<Rightarrow> real \<Rightarrow> real \<Rightarrow> DragService \<Rightarrow> bool" where
  "dragDidStartAt id' x y s =
     (if falsy_string (downId s) then False
      else case downAt s of
        None \<Rightarrow> False
      | Some p \<Rightarrow>
          if Some id' \<noteq> downId s then False
          else if x = point_x p \<and> y = point_y p then False
          else True)"

definition getRect :: "world \<Rightarrow> handle option \<Rightarrow> error + DOMRect" where
  "getRect w element =
     (case element of
        None \<Rightarrow> Inl TypeError
      | Some h \<Rightarrow>
          if rect_bottom (boundingClientRect (document w h)) = 0 \<and> NODE_ENV w = ''test''
          then Inl VerySuspicious
          else Inr (boundingClientRect (document w h)))"

text \<open>
  The type guard \<^verbatim>\<open>assertDragging\<close>: it throws unless the four fields are defined and
  the flag is set, and narrows the type otherwise; the model returns the four values the
  caller may then read. The checks are in the order of the source.
\<close>

definition assertDragging ::
  "DragService \<Rightarrow> string \<Rightarrow> error + (Point \<times> handle \<times> DOMRect \<times> Point)" where
  "assertDragging list functionName =
     (case downAt list of
        None \<Rightarrow> Inl (NotInDraggingState functionName)
      | Some p \<Rightarrow>
     (case downElement list of
        None \<Rightarrow> Inl (NotInDraggingState functionName)
      | Some el \<Rightarrow>
     (case downRect list of
        None \<Rightarrow> Inl (NotInDraggingState functionName)
      | Some r \<Rightarrow>
     (if \<not> isDragging list then Inl (NotInDraggingState functionName)
      else
     (case lastPoint list of
        None \<Rightarrow> Inl (NotInDraggingState functionName)
      | Some lp \<Rightarrow> Inr (p, el, r, lp))))))"

definition getDragElementPosition :: "MouseEvent \<Rightarrow> DragService \<Rightarrow> error + (css \<times> css)" where
  "getDragElementPosition event s =
     (case assertDragging s ''getDragElementPosition'' of
        Inl e \<Rightarrow> Inl e
      | Inr (p, el, r, lp) \<Rightarrow>
          Inr (Px (rect_top r + clientY event - point_y p),
               Px (rect_left r + clientX event - point_x p)))"

text \<open>\<^verbatim>\<open>window.addEventListener\<close> keeps one registration of a listener per event type;
  \<^verbatim>\<open>window.removeEventListener\<close> drops it.\<close>

definition addEventListener :: "string \<Rightarrow> listener \<Rightarrow> world \<Rightarrow> world" where
  "addEventListener ty l w =
     w\<lparr> window_listeners :=
          (if (ty, l) \<in> set (window_listeners w) then window_listeners w
           else window_listeners w @ [(ty, l)]),
        trace := trace w @ [AddEventListener ty l] \<rparr>"

definition removeEventListener :: "string \<Rightarrow> listener \<Rightarrow> world \<Rightarrow> world" where
  "removeEventListener ty l w =
     w\<lparr> window_listeners := filter (\<lambda>r. r \<noteq> (ty, l)) (window_listeners w),
        trace := trace w @ [RemoveEventListener ty l] \<rparr>"

text \<open>The three writes \<^verbatim>\<open>style.position\<close>, \<^verbatim>\<open>style.top\<close>, \<^verbatim>\<open>style.left\<close> on one
  element, in that order.\<close>

definition write_style :: "handle \<Rightarrow> css \<Rightarrow> css \<Rightarrow> css \<Rightarrow> world \<Rightarrow> world" where
  "write_style h pos top' left' w =
     w\<lparr> document := (document w)
          (h := (document w h)\<lparr> style_position := pos, style_top := top', style_left := left' \<rparr>),
        trace := trace w @
          [StyleWrite h ''position'' pos, StyleWrite h ''top'' top', StyleWrite h ''left'' left'] \<rparr>"

definition startTracking :: "string \<Rightarrow> MouseEvent \<Rightarrow> world \<Rightarrow> world result" where
  "startTracking id' event w =
     (if handleMove (service w) \<noteq> None \<or> handleUp (service w) \<noteq> None
      then Inl (HandlersAlreadyExist, w)
      else
        let w1 = w\<lparr> service := (service w)\<lparr> isDragging := True, draggingId := Some id' \<rparr> \<rparr>
        in case assertDragging (service w1) ''startTracking'' of
             Inl e \<Rightarrow> Inl (e, w1)
           | Inr narrowed \<Rightarrow>
               Inr (addEventListener ''mouseup'' HandleUp
                     (addEventListener ''mousemove'' HandleMove
                       (w1\<lparr> service := (service w1)
                            \<lparr> handleMove := Some HandleMove, handleUp := Some HandleUp \<rparr> \<rparr>))))"

definition intrudesDown :: "real \<Rightarrow> DOMRect \<Rightarrow> DOMRect \<Rightarrow> bool" where
  "intrudesDown dy draggingItemRect targetItemRect =
     (if rect_bottom draggingItemRect + dy
           > rect_top targetItemRect + rect_height draggingItemRect / 2
      then True else False)"

definition intrudesUp :: "real \<Rightarrow> DOMRect \<Rightarrow> DOMRect \<Rightarrow> bool" where
  "intrudesUp dy draggingItemRect targetItemRect =
     (if rect_top draggingItemRect + dy
           < rect_bottom targetItemRect - rect_height draggingItemRect / 2
      then True else False)"

definition isBelow :: "real \<Rightarrow> real \<Rightarrow> DOMRect \<Rightarrow> DOMRect \<Rightarrow> bool" where
  "isBelow dx dy draggingItemRect targetItemRect =
     (if rect_top draggingItemRect + dy > rect_bottom targetItemRect then True
      else if rect_right draggingItemRect + dx < rect_left targetItemRect then True
      else if rect_left draggingItemRect + dx > rect_right targetItemRect then True
      else False)"

definition isAbove :: "real \<Rightarrow> real \<Rightarrow> DOMRect \<Rightarrow> DOMRect \<Rightarrow> bool" where
  "isAbove dx dy draggingItemRect targetItemRect =
     (if rect_bottom draggingItemRect + dy < rect_top targetItemRect then True
      else if rect_right draggingItemRect + dx < rect_left targetItemRect then True
      else if rect_left draggingItemRect + dx > rect_right targetItemRect then True
      else False)"

subsection \<open>The move handler\<close>

text \<open>
  The loop of the branch \<^verbatim>\<open>direction === "down"\<close>, from \<open>elementIndex\<close> on. The pair is
  \<open>(newElementIndex, newItemIndex)\<close>; \<open>itemIndex\<close> is the loop's counter of elements
  that are not the placeholder. Reading the rectangle of a slot never registered throws.
\<close>

function walkDown ::
  "world \<Rightarrow> real \<Rightarrow> real \<Rightarrow> DOMRect \<Rightarrow> int \<Rightarrow> int \<Rightarrow> int \<times> int \<Rightarrow> error + int \<times> int" where
  "walkDown w dx dy dRect elementIndex itemIndex new =
     (if elementIndex \<le> maxElementIndex (service w) then
        (case getRect w (array_get (elements (service w)) elementIndex) of
           Inl e \<Rightarrow> Inl e
         | Inr targetRect \<Rightarrow>
             if elementIndex = maxElementIndex (service w) \<and> isBelow dx dy dRect targetRect
             then Inr (-2, -2)
             else if intrudesDown dy dRect targetRect
             then walkDown w dx dy dRect (elementIndex + 1)
                    (if Some elementIndex \<noteq> placeholderElementIndex (service w)
                     then itemIndex + 1 else itemIndex)
                    (if Some elementIndex \<noteq> placeholderElementIndex (service w)
                     then (itemIndex + 1, itemIndex + 1) else (itemIndex, itemIndex))
             else Inr new)
      else Inr new)"
  by pat_completeness auto
termination
  by (relation "measure (\<lambda>(w, dx, dy, r, e, i, n). nat (maxElementIndex (service w) + 1 - e))")
     auto

text \<open>The local function \<^verbatim>\<open>getItemIndex\<close> of the upward loop.\<close>

definition getItemIndex :: "int option \<Rightarrow> int \<Rightarrow> int" where
  "getItemIndex placeholderElementIndex' elementIndex =
     (case placeholderElementIndex' of
        None \<Rightarrow> elementIndex
      | Some pe \<Rightarrow>
          if pe = 0 then elementIndex
          else if pe > elementIndex then elementIndex
          else if pe < 0 then elementIndex
          else elementIndex - 1)"

text \<open>\<^verbatim>\<open>isLastPossibleElement\<close>: \<^verbatim>\<open>elements[0]\<close> is read only when
  \<^verbatim>\<open>elementIndex === 1\<close>, and the read of its data attribute throws on a hole.\<close>

definition isLastPossibleElement :: "world \<Rightarrow> int \<Rightarrow> error + bool" where
  "isLastPossibleElement w elementIndex =
     (if elementIndex = 1 then
        (case array_get (elements (service w)) 0 of
           None \<Rightarrow> Inl TypeError
         | Some h \<Rightarrow>
             Inr (dataset_rhahOrderableListId (document w h) = draggingId (service w)
                  \<or> elementIndex = 0))
      else Inr (elementIndex = 0))"

function walkUp ::
  "world \<Rightarrow> real \<Rightarrow> real \<Rightarrow> DOMRect \<Rightarrow> int \<Rightarrow> int \<times> int \<Rightarrow> error + int \<times> int" where
  "walkUp w dx dy dRect elementIndex new =
     (if elementIndex \<ge> 0 then
        (case getRect w (array_get (elements (service w)) elementIndex) of
           Inl e \<Rightarrow> Inl e
         | Inr targetRect \<Rightarrow>
            (case isLastPossibleElement w elementIndex of
               Inl e \<Rightarrow> Inl e
             | Inr isLast \<Rightarrow>
                 if isLast \<and> isAbove dx dy dRect targetRect
                 then Inr (-2, -2)
                 else if intrudesUp dy dRect targetRect
                 then walkUp w dx dy dRect (elementIndex - 1)
                        (getItemIndex (placeholderElementIndex (service w)) elementIndex,
                         getItemIndex (placeholderElementIndex (service w)) elementIndex)
                 else Inr new))
      else Inr new)"
  by pat_completeness auto
termination
  by (relation "measure (\<lambda>(w, dx, dy, r, e, n). nat (e + 1))") auto

declare walkDown.simps [simp del] walkUp.simps [simp del]

text \<open>
  \<^verbatim>\<open>handleMouseMove\<close>, the closure \<^verbatim>\<open>getMouseMoveHandler(list, onDragTo)\<close> returns.
  A throw inside the walk leaves the direction and the last point already written.
\<close>

definition handleMouseMove :: "MouseEvent \<Rightarrow> world \<Rightarrow> world result" where
  "handleMouseMove event w =
     (case assertDragging (service w) ''getMouseMoveHandler'' of
        Inl e \<Rightarrow> Inl (e, w)
      | Inr (p, el, dRect, lp) \<Rightarrow>
          let dy = clientY event - point_y p;
              dx = clientX event - point_x p;
              dyFromLastPoint = clientY event - point_y lp;
              direction =
                (if dyFromLastPoint > 0 then Down
                 else if dyFromLastPoint < 0 then Up
                 else (case lastDirection (service w) of None \<Rightarrow> Down | Some d \<Rightarrow> d));
              w1 = w\<lparr> service := (service w)
                     \<lparr> lastDirection := Some direction,
                       lastPoint := Some \<lparr> point_x = clientY event, point_y = clientY event \<rparr> \<rparr> \<rparr>
          in case getDragElementPosition event (service w1) of
               Inl e \<Rightarrow> Inl (e, w1)
             | Inr (top', left') \<Rightarrow>
                (case (if direction = Down
                       then walkDown w1 dx dy dRect 0 0
                              (or_default (placeholderElementIndex (service w1)) (-2),
                               or_default (placeholderItemIndex (service w1)) (-2))
                       else walkUp w1 dx dy dRect (maxElementIndex (service w1))
                              (or_default (placeholderElementIndex (service w1)) (-2),
                               or_default (placeholderItemIndex (service w1)) (-2))) of
                   Inl e \<Rightarrow> Inl (e, w1)
                 | Inr (newElementIndex, newItemIndex) \<Rightarrow>
                     let w2 = write_style el (Css ''absolute'') top' left' w1
                     in if placeholderItemIndex (service w2) \<noteq> Some newItemIndex
                        then Inr (w2\<lparr> service := (service w2)
                                      \<lparr> placeholderItemIndex := Some newItemIndex,
                                        placeholderElementIndex := Some newElementIndex \<rparr>,
                                    trace := trace w2 @ [OnDragTo newItemIndex] \<rparr>)
                        else Inr w2))"

subsection \<open>The release handler\<close>

definition isPlaceholderId :: "string \<Rightarrow> bool" where
  "isPlaceholderId id' = (take 17 id' = ''rhah-placeholder-'')"

definition withoutPlaceholderIds :: "string list \<Rightarrow> string list" where
  "withoutPlaceholderIds ids = filter (\<lambda>id'. \<not> isPlaceholderId id') ids"

text \<open>
  The last statements of the release handler when the placeholder is not ejected:
  \<^verbatim>\<open>without\<close>, \<^verbatim>\<open>findIndex\<close>, and the assignment at the index found. At index
  \<open>-1\<close> the assignment sets a property of the array object and no element of it.
\<close>

definition reorderedIds :: "string list \<Rightarrow> string \<Rightarrow> string list" where
  "reorderedIds orderedElementIds' droppedId =
     (let orderedItemIds = without orderedElementIds' droppedId;
          placeholderItemIndex' = findIndex isPlaceholderId orderedItemIds
      in if placeholderItemIndex' < 0 then orderedItemIds
         else orderedItemIds[nat placeholderItemIndex' := droppedId])"

definition call_onDragEnd :: "string list \<Rightarrow> world \<Rightarrow> world" where
  "call_onDragEnd newOrderedIds w = w\<lparr> trace := trace w @ [OnDragEnd newOrderedIds] \<rparr>"

text \<open>The state the release handler writes, field by field as the source does.\<close>

definition clearDragState :: "DragService \<Rightarrow> DragService" where
  "clearDragState s =
     s\<lparr> handleMove := None, handleUp := None, downId := None, downAt := None,
        lastPoint := None, isDragging := False, draggingId := None,
        downElement := None, downRect := None \<rparr>"

text \<open>The closure \<^verbatim>\<open>this.handleUp\<close> of \<^verbatim>\<open>startTracking\<close>.\<close>

definition handleUp_closure :: "world \<Rightarrow> world result" where
  "handleUp_closure w =
     (case handleMove (service w) of
        None \<Rightarrow> Inl (HandleMoveMissing, w)
      | Some hm \<Rightarrow>
     (case handleUp (service w) of
        None \<Rightarrow> Inl (HandleUpMissing, w)
      | Some hu \<Rightarrow>
     (case downElement (service w) of
        None \<Rightarrow> Inl (DownElementUndefined, w)
      | Some el \<Rightarrow>
     (case draggingId (service w) of
        None \<Rightarrow> Inl (DraggingIdUndefined, w)
      | Some droppedId \<Rightarrow>
          if droppedId = [] then Inl (DraggingIdUndefined, w)
          else if placeholderItemIndex (service w) = None
                  \<or> placeholderElementIndex (service w) = None
          then Inl (PlaceholderIndexUndefined, w)
          else
            let w1 = removeEventListener ''mouseup'' hu
                       (removeEventListener ''mousemove'' hm w);
                w2 = write_style el (Css []) (Css []) (Css []) w1;
                w3 = w2\<lparr> service := clearDragState (service w2) \<rparr>
            in if placeholderItemIndex (service w3) = Some (-2)
               then Inr (call_onDragEnd
                          (withoutPlaceholderIds (orderedElementIds (service w3))) w3)
               else Inr (call_onDragEnd
                          (reorderedIds (orderedElementIds (service w3)) droppedId) w3)))))"

section \<open>The hook\<close>

text \<open>
  Of \<^verbatim>\<open>useOrderableList\<close>: the options and their defaults, the engine it constructs, the
  sequence it displays and what a render tells the engine. An item is its identifier; a
  displayed entry is an item or the placeholder. The option \<^verbatim>\<open>onOrderChange\<close> is a
  callback the hook calls from \<^verbatim>\<open>onDragEnd\<close> with the same order, so the trace's
  \<open>OnDragEnd\<close> stands for both.
\<close>

record UseOrderableListOptions =
  dragOutIsAllowed :: "bool option"

datatype entry = Item string | Placeholder string

fun entry_id :: "entry \<Rightarrow> string" where
  "entry_id (Item i) = i"
| "entry_id (Placeholder i) = i"

fun isPlaceholder :: "entry \<Rightarrow> bool" where
  "isPlaceholder (Item i) = False"
| "isPlaceholder (Placeholder i) = True"

text \<open>The engine of the hook's first render: \<^verbatim>\<open>dragOutIsAllowed = true\<close> by default.\<close>

definition useOrderableList_service :: "string list \<Rightarrow> UseOrderableListOptions \<Rightarrow> DragService" where
  "useOrderableList_service items opts =
     new_DragService items
       (case dragOutIsAllowed opts of None \<Rightarrow> True | Some b \<Rightarrow> b)"

text \<open>\<^verbatim>\<open>insertPlaceholders\<close>; \<open>generated\<close> is what \<^verbatim>\<open>short.generate()\<close> returns.\<close>

definition insertPlaceholders ::
  "string list \<Rightarrow> int \<Rightarrow> DOMRect option \<Rightarrow> string \<Rightarrow> entry list" where
  "insertPlaceholders items placeholderIndex downRect' generated =
     (if placeholderIndex < 0 \<or> downRect' = None then map Item items
      else take (nat placeholderIndex) (map Item items)
           @ [Placeholder (''rhah-placeholder-'' @ generated)]
           @ drop (nat placeholderIndex) (map Item items))"

text \<open>What a render with the reactive state \<open>placeholderIndex\<close> does to the engine:
  \<^verbatim>\<open>service.resetElementList(itemsAndPlaceholders.map((item) => item.id))\<close>.\<close>

definition render :: "string list \<Rightarrow> int \<Rightarrow> string \<Rightarrow> world \<Rightarrow> world" where
  "render items placeholderIndex generated w =
     w\<lparr> service :=
          resetElementList
            (map entry_id
              (insertPlaceholders items placeholderIndex (downRect (service w)) generated))
            (service w) \<rparr>"

text \<open>
  The \<^verbatim>\<open>onMouseMove\<close> prop of an item: nothing while a drag is tracked or no item is
  pressed (the hook's reactive \<open>downId\<close>) or the pointer has not left the down point;
  otherwise \<^verbatim>\<open>startDrag\<close>, which calls \<^verbatim>\<open>startTracking\<close>.
\<close>

definition item_onMouseMove ::
  "string option \<Rightarrow> string \<Rightarrow> MouseEvent \<Rightarrow> world \<Rightarrow> world result" where
  "item_onMouseMove hook_downId id' event w =
     (if isDragging (service w) \<or> falsy_string hook_downId then Inr w
      else if \<not> dragDidStartAt id' (clientX event) (clientY event) (service w) then Inr w
      else startTracking id' event w)"

text \<open>The ref callbacks of one render: the element of each displayed entry is pushed at
  the entry's index, from index \<open>i\<close> on.\<close>

fun attachRefs :: "handle list \<Rightarrow> nat \<Rightarrow> world \<Rightarrow> world result" where
  "attachRefs [] i w = Inr w"
| "attachRefs (h # hs) i w =
     (case pushElement h i (service w) of
        Inl (e, s) \<Rightarrow> Inl (e, w\<lparr> service := s \<rparr>)
      | Inr s \<Rightarrow> attachRefs hs (Suc i) (w\<lparr> service := s \<rparr>))"

text \<open>
  The hook's reactive state \<open>placeholderIndex\<close>, as the callbacks so far leave it:
  \<open>-1\<close> at first, \<^verbatim>\<open>setPlaceholderIndex(index)\<close> in \<^verbatim>\<open>onDragTo\<close>, and
  \<^verbatim>\<open>setPlaceholderIndex(-1)\<close> in \<^verbatim>\<open>onDragEnd\<close>.
\<close>

fun placeholderIndex_after :: "effect list \<Rightarrow> int \<Rightarrow> int" where
  "placeholderIndex_after [] p = p"
| "placeholderIndex_after (OnDragTo i # es) p = placeholderIndex_after es i"
| "placeholderIndex_after (OnDragEnd ids # es) p = placeholderIndex_after es (-1)"
| "placeholderIndex_after (e # es) p = placeholderIndex_after es p"

definition rerender :: "string list \<Rightarrow> string \<Rightarrow> world \<Rightarrow> world" where
  "rerender items generated w =
     render items (placeholderIndex_after (trace w) (-1)) generated w"

section \<open>A list of three items\<close>

text \<open>
  The scenario of the specification: the items \<open>A\<close>, \<open>B\<close>, \<open>C\<close>, rendered as the
  elements \<open>0\<close>, \<open>1\<close>, \<open>2\<close>, each of height \<open>h\<close> and width \<open>100\<close>, stacked from the
  top of the viewport with no gap. Element \<open>k\<close> of a rendered list carries the
  identifier of item \<open>k\<close>.
\<close>

definition itemRect :: "real \<Rightarrow> nat \<Rightarrow> DOMRect" where
  "itemRect h k =
     \<lparr> rect_top = real k * h, rect_bottom = real k * h + h, rect_left = 0,
       rect_right = 100, rect_width = 100, rect_height = h \<rparr>"

definition itemElement :: "string \<Rightarrow> DOMRect \<Rightarrow> HTMLElement" where
  "itemElement id' r =
     \<lparr> dataset_rhahOrderableListId = Some id', boundingClientRect = r,
       style_position = Css [], style_top = Css [], style_left = Css [] \<rparr>"

definition renderedItems :: "string list \<Rightarrow> UseOrderableListOptions \<Rightarrow> real \<Rightarrow> world" where
  "renderedItems items opts h =
     \<lparr> service = useOrderableList_service items opts,
       document = (\<lambda>k. itemElement (if k < length items then items ! k else []) (itemRect h k)),
       window_listeners = [],
       NODE_ENV = ''production'',
       trace = [] \<rparr>"

definition threeItems :: "UseOrderableListOptions \<Rightarrow> real \<Rightarrow> world" where
  "threeItems opts h = renderedItems [''A'', ''B'', ''C''] opts h"

text \<open>The first render, then a press on \<open>A\<close> at the middle of the element, then the
  move that starts the drag: it reaches the item's \<^verbatim>\<open>onMouseMove\<close>, which starts the
  tracking, and then the window's listener.\<close>

definition pressA :: "real \<Rightarrow> ReactMouseEvent" where
  "pressA h = \<lparr> clientX = 50, clientY = h / 2, target = 0 \<rparr>"

definition trackA :: "UseOrderableListOptions \<Rightarrow> real \<Rightarrow> MouseEvent \<Rightarrow> world result" where
  "trackA opts h event =
     andThen (attachRefs [0, 1, 2] 0 (rerender [''A'', ''B'', ''C''] ''x'' (threeItems opts h)))
       (\<lambda>w. item_onMouseMove (Some ''A'') ''A'' event (onMouseDown (pressA h) w))"

definition dragA :: "UseOrderableListOptions \<Rightarrow> real \<Rightarrow> MouseEvent \<Rightarrow> world result" where
  "dragA opts h event = andThen (trackA opts h event) (handleMouseMove event)"

text \<open>The render the reported index causes, then the release.\<close>

definition draggedA :: "UseOrderableListOptions \<Rightarrow> real \<Rightarrow> MouseEvent \<Rightarrow> world result" where
  "draggedA opts h event =
     andThen (dragA opts h event) (\<lambda>w. Inr (rerender [''A'', ''B'', ''C''] ''x'' w))"

definition dragA_release :: "UseOrderableListOptions \<Rightarrow> real \<Rightarrow> MouseEvent \<Rightarrow> world result" where
  "dragA_release opts h event = andThen (draggedA opts h event) handleUp_closure"

text \<open>
  A second gesture, on elements of height \<open>10\<close>: a press on \<open>B\<close> and a move up by
  \<open>16\<close>, past the threshold of \<open>A\<close>, which reports the index \<open>0\<close>. The render that
  follows displays the placeholder first; its element is the new element \<open>3\<close>. The
  layout after that render has the placeholder in the first slot, \<open>A\<close> in the second,
  \<open>C\<close> in the third, and \<open>B\<close>, now positioned absolutely, where the pointer took it.
\<close>

definition pressB :: ReactMouseEvent where
  "pressB = \<lparr> clientX = 50, clientY = 15, target = 1 \<rparr>"

definition dragB_up :: "world result" where
  "dragB_up =
     andThen (attachRefs [0, 1, 2] 0
               (rerender [''A'', ''B'', ''C''] ''x'' (threeItems \<lparr> dragOutIsAllowed = None \<rparr> 10)))
       (\<lambda>w. andThen (item_onMouseMove (Some ''B'') ''B'' \<lparr> clientX = 50, clientY = -1 \<rparr>
                        (onMouseDown pressB w))
               (handleMouseMove \<lparr> clientX = 50, clientY = -1 \<rparr>))"

definition layoutPlaceholderOnTop :: "(handle \<Rightarrow> HTMLElement) \<Rightarrow> handle \<Rightarrow> HTMLElement" where
  "layoutPlaceholderOnTop doc k =
     (if k = 3 then itemElement ''rhah-placeholder-x'' (itemRect 10 0)
      else if k = 0 then (doc k)\<lparr> boundingClientRect := itemRect 10 1 \<rparr>
      else if k = 1 then (doc k)\<lparr> boundingClientRect :=
             \<lparr> rect_top = -6, rect_bottom = 4, rect_left = 0, rect_right = 100,
               rect_width = 100, rect_height = 10 \<rparr> \<rparr>
      else doc k)"

definition placeholderOnTop :: "world result" where
  "placeholderOnTop =
     andThen dragB_up
       (\<lambda>w. attachRefs [3, 0, 1, 2] 0
               ((rerender [''A'', ''B'', ''C''] ''x'' w)
                  \<lparr> document := layoutPlaceholderOnTop (document w) \<rparr>))"

section \<open>A stream of move events\<close>

text \<open>
  A gesture with any number of move events on the three items. After each event the
  hook renders with the index reported last, the ref callbacks register the displayed
  elements, and the browser lays the document out again: an element positioned
  absolutely is out of the flow and stands where its style puts it, keeping its size;
  the others are stacked from the top of the viewport with no gap, an item at height
  \<open>h\<close> and width \<open>100\<close>, the placeholder at the floor of the width and height of the
  down rectangle, which is the style \<^verbatim>\<open>getItemProps\<close> gives it.
\<close>

fun handleOf :: "entry \<Rightarrow> handle" where
  "handleOf (Item i) = (if i = ''A'' then 0 else if i = ''B'' then 1 else 2)"
| "handleOf (Placeholder i) = 3"

definition positioned :: "HTMLElement \<Rightarrow> HTMLElement" where
  "positioned el =
     (case style_top el of
        Css s \<Rightarrow> el
      | Px t \<Rightarrow>
         (case style_left el of
            Css s \<Rightarrow> el
          | Px l \<Rightarrow>
              el\<lparr> boundingClientRect :=
                    \<lparr> rect_top = t,
                      rect_bottom = t + rect_height (boundingClientRect el),
                      rect_left = l,
                      rect_right = l + rect_width (boundingClientRect el),
                      rect_width = rect_width (boundingClientRect el),
                      rect_height = rect_height (boundingClientRect el) \<rparr> \<rparr>))"

definition inFlow :: "real \<Rightarrow> DOMRect option \<Rightarrow> real \<Rightarrow> entry \<Rightarrow> DOMRect" where
  "inFlow h dRect y e =
     (if isPlaceholder e
      then (case dRect of
              None \<Rightarrow> \<lparr> rect_top = y, rect_bottom = y, rect_left = 0, rect_right = 0,
                        rect_width = 0, rect_height = 0 \<rparr>
            | Some r \<Rightarrow>
                \<lparr> rect_top = y, rect_bottom = y + of_int \<lfloor>rect_height r\<rfloor>, rect_left = 0,
                  rect_right = of_int \<lfloor>rect_width r\<rfloor>, rect_width = of_int \<lfloor>rect_width r\<rfloor>,
                  rect_height = of_int \<lfloor>rect_height r\<rfloor> \<rparr>)
      else \<lparr> rect_top = y, rect_bottom = y + h, rect_left = 0, rect_right = 100,
             rect_width = 100, rect_height = h \<rparr>)"

fun stackFrom ::
  "real \<Rightarrow> DOMRect option \<Rightarrow> real \<Rightarrow> entry list \<Rightarrow> (handle \<Rightarrow> HTMLElement)
     \<Rightarrow> (handle \<Rightarrow> HTMLElement)" where
  "stackFrom h dRect y [] doc = doc"
| "stackFrom h dRect y (e # es) doc =
     (if style_position (doc (handleOf e)) = Css ''absolute''
      then stackFrom h dRect y es (doc(handleOf e := positioned (doc (handleOf e))))
      else stackFrom h dRect (rect_bottom (inFlow h dRect y e)) es
             (doc(handleOf e := (doc (handleOf e))
                    \<lparr> dataset_rhahOrderableListId := Some (entry_id e),
                      boundingClientRect := inFlow h dRect y e \<rparr>)))"

definition renderAndLayout :: "real \<Rightarrow> world \<Rightarrow> world result" where
  "renderAndLayout h w =
     attachRefs
       (map handleOf
         (insertPlaceholders [''A'', ''B'', ''C''] (placeholderIndex_after (trace w) (-1))
            (downRect (service w)) ''x''))
       0
       ((rerender [''A'', ''B'', ''C''] ''x'' w)
          \<lparr> document :=
              stackFrom h (downRect (service w)) 0
                (insertPlaceholders [''A'', ''B'', ''C''] (placeholderIndex_after (trace w) (-1))
                   (downRect (service w)) ''x'')
                (document w) \<rparr>)"

fun moveEvents :: "real \<Rightarrow> MouseEvent list \<Rightarrow> world \<Rightarrow> world result" where
  "moveEvents h [] w = Inr w"
| "moveEvents h (e # es) w =
     andThen (andThen (handleMouseMove e w) (renderAndLayout h)) (moveEvents h es)"

text \<open>
  The gesture on a list just mounted, whose engine has tracked no drag before: the first
  render, a press on \<open>A\<close> at \<open>(px, py)\<close>, the first move \<open>e1\<close>, which reaches the
  \<^verbatim>\<open>onMouseMove\<close> of \<open>A\<close> and then the window's listener, and the moves \<open>es\<close>,
  which reach the window's listener.
\<close>

definition gestureA ::
  "UseOrderableListOptions \<Rightarrow> real \<Rightarrow> real \<Rightarrow> real \<Rightarrow> MouseEvent \<Rightarrow> MouseEvent list
     \<Rightarrow> world result" where
  "gestureA opts h px py e1 es =
     andThen (attachRefs [0, 1, 2] 0 (rerender [''A'', ''B'', ''C''] ''x'' (threeItems opts h)))
       (\<lambda>w. andThen
               (item_onMouseMove (Some ''A'') ''A'' e1
                  (onMouseDown \<lparr> clientX = px, clientY = py, target = 0 \<rparr> w))
               (moveEvents h (e1 # es)))"

definition gestureA_release ::
  "UseOrderableListOptions \<Rightarrow> real \<Rightarrow> real \<Rightarrow> real \<Rightarrow> MouseEvent \<Rightarrow> MouseEvent list
     \<Rightarrow> world result" where
  "gestureA_release opts h px py e1 es =
     andThen (gestureA opts h px py e1 es) handleUp_closure"

text \<open>The indices the engine has reported through \<^verbatim>\<open>onDragTo\<close>, in order.\<close>

fun reportedIndices :: "effect list \<Rightarrow> int list" where
  "reportedIndices [] = []"
| "reportedIndices (OnDragTo i # es) = i # reportedIndices es"
| "reportedIndices (e # es) = reportedIndices es"



text \<open>The definitions a run of a scenario unfolds.\<close>

lemmas scenario_defs =
  dragA_def trackA_def draggedA_def dragA_release_def threeItems_def renderedItems_def
  pressA_def rerender_def render_def dragB_up_def pressB_def layoutPlaceholderOnTop_def
  placeholderOnTop_def insertPlaceholders_def resetElementList_def
  useOrderableList_service_def new_DragService_def andThen_def item_onMouseMove_def
  dragDidStartAt_def falsy_string_def pushElement_def array_store_def onMouseDown_def
  startTracking_def assertDragging_def addEventListener_def handleMouseMove_def
  getDragElementPosition_def or_default_def walkDown.simps walkUp.simps getRect_def
  array_get_def itemRect_def itemElement_def intrudesDown_def intrudesUp_def
  isBelow_def isAbove_def write_style_def Let_def isLastPossibleElement_def
  getItemIndex_def handleUp_closure_def removeEventListener_def clearDragState_def
  call_onDragEnd_def withoutPlaceholderIds_def reorderedIds_def without_def
  isPlaceholderId_def returned_def left_behind_def

lemmas gesture_defs =
  scenario_defs gestureA_def gestureA_release_def renderAndLayout_def positioned_def
  inFlow_def

section \<open>Registering elements\<close>

text \<open>
  C8. Registering at an index above \<^verbatim>\<open>maxElementIndex\<close> throws and leaves the engine
  as it was (the state that stays behind is the state before the call); at an index up to
  \<^verbatim>\<open>maxElementIndex\<close> the call returns, the handle is at that index of the registry,
  no other slot reads differently, and no other field changes.
\<close>

theorem pushElement_bounds:
  "(int index > maxElementIndex s \<longrightarrow>
      pushElement element index s = Inl (BeyondMaxIndex index (maxElementIndex s), s))
   \<and> (int index \<le> maxElementIndex s \<longrightarrow>
      (\<exists>s'. pushElement element index s = Inr s'
         \<and> array_get (elements s') (int index) = Some element
         \<and> s' = s\<lparr> elements := elements s' \<rparr>
         \<and> (\<forall>j. j \<noteq> int index \<longrightarrow> array_get (elements s') j = array_get (elements s) j)))"
proof (intro conjI impI)
  assume "int index > maxElementIndex s"
  then show "pushElement element index s = Inl (BeyondMaxIndex index (maxElementIndex s), s)"
    by (simp add: pushElement_def)
next
  assume le: "int index \<le> maxElementIndex s"
  let ?s' = "s\<lparr> elements := array_store (elements s) index element \<rparr>"
  have run: "pushElement element index s = Inr ?s'"
    using le by (simp add: pushElement_def)
  have here: "array_get (elements ?s') (int index) = Some element"
    by (simp add: array_get_def array_store_def nth_append)
  have others: "array_get (elements ?s') j = array_get (elements s) j" if "j \<noteq> int index" for j
    using that
    by (auto simp: array_get_def array_store_def nth_append nth_Cons' nat_less_iff
             split: if_splits)
  show "\<exists>s'. pushElement element index s = Inr s'
         \<and> array_get (elements s') (int index) = Some element
         \<and> s' = s\<lparr> elements := elements s' \<rparr>
         \<and> (\<forall>j. j \<noteq> int index \<longrightarrow> array_get (elements s') j = array_get (elements s) j)"
    using run here others by (intro exI [of _ ?s']) simp
qed

theorem pushElement_bounds_witness:
  "pushElement 7 3 (resetElementList [''A'', ''B'', ''C''] (new_DragService [] True))
     = Inl (BeyondMaxIndex 3 2, resetElementList [''A'', ''B'', ''C''] (new_DragService [] True))
   \<and> returned (pushElement 7 2 (resetElementList [''A'', ''B'', ''C''] (new_DragService [] True)))
        elements = Some [None, None, Some 7]"
  using pushElement_bounds [where index = 3 and element = 7
          and s = "resetElementList [''A'', ''B'', ''C''] (new_DragService [] True)"]
  by (simp add: pushElement_def resetElementList_def new_DragService_def returned_def
        array_store_def eval_nat_numeral)

section \<open>The intrusion predicates\<close>

text \<open>
  C4. \<^verbatim>\<open>intrudesDown\<close> holds exactly when
  \<^verbatim>\<open>draggedRect.bottom + dy > targetRect.top + draggedRect.height / 2\<close>, and
  \<^verbatim>\<open>intrudesUp\<close> exactly when
  \<^verbatim>\<open>draggedRect.top + dy < targetRect.bottom - draggedRect.height / 2\<close>, both strict.
  So for two rectangles of equal height stacked with no gap, a move of exactly half the
  dragged height towards the other rectangle does not intrude: downwards when the target
  lies directly below the dragged rectangle, upwards (the delta is then negative) when it
  lies directly above.
\<close>

theorem intrusion_predicates:
  "intrudesDown dy d t = (rect_bottom d + dy > rect_top t + rect_height d / 2)
   \<and> intrudesUp dy d t = (rect_top d + dy < rect_bottom t - rect_height d / 2)
   \<and> (rect_height t = rect_height d \<and> rect_top t = rect_bottom d
        \<longrightarrow> \<not> intrudesDown (rect_height d / 2) d t)
   \<and> (rect_height t = rect_height d \<and> rect_bottom t = rect_top d
        \<longrightarrow> \<not> intrudesUp (- (rect_height d / 2)) d t)"
  by (simp add: intrudesDown_def intrudesUp_def)

theorem intrusion_predicates_witness:
  "rect_height (itemRect 10 1) = rect_height (itemRect 10 0)
   \<and> rect_top (itemRect 10 1) = rect_bottom (itemRect 10 0)
   \<and> \<not> intrudesDown (rect_height (itemRect 10 0) / 2) (itemRect 10 0) (itemRect 10 1)
   \<and> rect_bottom (itemRect 10 0) = rect_top (itemRect 10 1)
   \<and> \<not> intrudesUp (- (rect_height (itemRect 10 1) / 2)) (itemRect 10 1) (itemRect 10 0)"
  using intrusion_predicates [where d = "itemRect 10 0" and t = "itemRect 10 1"]
        intrusion_predicates [where d = "itemRect 10 1" and t = "itemRect 10 0"]
  by (simp add: itemRect_def)

section \<open>Click or drag\<close>

text \<open>
  C7, as the code has it. \<^verbatim>\<open>dragDidStartAt\<close> returns true exactly when a down point is
  recorded, the pressed identifier is recorded, is not the empty string and is the
  identifier given, and the point given differs from the down point in a coordinate. It
  is a function of the engine's state to a truth value: it writes nothing.
\<close>

theorem dragDidStartAt_iff:
  "dragDidStartAt id' x y s =
     (\<exists>p. downAt s = Some p \<and> downId s = Some id' \<and> id' \<noteq> []
          \<and> \<not> (x = point_x p \<and> y = point_y p))"
  by (auto simp: dragDidStartAt_def falsy_string_def split: option.splits)

theorem dragDidStartAt_iff_witness:
  "dragDidStartAt ''A'' 51 5
     (service (onMouseDown (pressA 10) (threeItems \<lparr>dragOutIsAllowed = None\<rparr> 10)))
   \<and> \<not> dragDidStartAt ''A'' 50 5
     (service (onMouseDown (pressA 10) (threeItems \<lparr>dragOutIsAllowed = None\<rparr> 10)))
   \<and> \<not> dragDidStartAt ''B'' 51 5
     (service (onMouseDown (pressA 10) (threeItems \<lparr>dragOutIsAllowed = None\<rparr> 10)))
   \<and> \<not> dragDidStartAt ''A'' 51 5 (service (threeItems \<lparr>dragOutIsAllowed = None\<rparr> 10))"
  using dragDidStartAt_iff [where id' = "''A''" and x = 51 and y = 5
          and s = "service (onMouseDown (pressA 10) (threeItems \<lparr>dragOutIsAllowed = None\<rparr> 10))"]
  by (simp add: dragDidStartAt_def falsy_string_def onMouseDown_def pressA_def threeItems_def
        renderedItems_def itemElement_def useOrderableList_service_def new_DragService_def)

text \<open>
  The claim as stated fails where the pressed item's identifier is the empty string:
  after a press on that item, at another point and for the same identifier, a press is
  active, the identifier is the pressed one and the point differs, and the answer is
  false, because \<^verbatim>\<open>!this.downId\<close> holds of the empty string.
\<close>

theorem dragDidStartAt_empty_id_counterexample:
  "downId (service (onMouseDown (pressA 10)
             (renderedItems [[], ''B''] \<lparr>dragOutIsAllowed = None\<rparr> 10))) = Some []
   \<and> downAt (service (onMouseDown (pressA 10)
             (renderedItems [[], ''B''] \<lparr>dragOutIsAllowed = None\<rparr> 10)))
       = Some \<lparr> point_x = 50, point_y = 5 \<rparr>
   \<and> \<not> dragDidStartAt [] 51 5
         (service (onMouseDown (pressA 10)
             (renderedItems [[], ''B''] \<lparr>dragOutIsAllowed = None\<rparr> 10)))"
  by (simp add: dragDidStartAt_def falsy_string_def onMouseDown_def pressA_def
        renderedItems_def itemElement_def useOrderableList_service_def new_DragService_def)

section \<open>Starting to track\<close>

text \<open>
  C9. \<^verbatim>\<open>startTracking\<close> fails in two ways. With a move or release handler already
  there it throws and the world is as before. With no handler there and the down point,
  the down element, the down rectangle or the last point missing, it throws from
  \<^verbatim>\<open>assertDragging\<close>, and the engine left behind has \<^verbatim>\<open>isDragging\<close> set and
  \<^verbatim>\<open>draggingId\<close> recorded, though no press is active.
\<close>

theorem startTracking_failures:
  "(handleMove (service w) \<noteq> None \<or> handleUp (service w) \<noteq> None
      \<longrightarrow> startTracking id' event w = Inl (HandlersAlreadyExist, w))
   \<and> (handleMove (service w) = None \<and> handleUp (service w) = None
       \<and> (downAt (service w) = None \<or> downElement (service w) = None
          \<or> downRect (service w) = None \<or> lastPoint (service w) = None)
      \<longrightarrow> startTracking id' event w =
            Inl (NotInDraggingState ''startTracking'',
                 w\<lparr> service := (service w)\<lparr> isDragging := True, draggingId := Some id' \<rparr> \<rparr>))"
  by (auto simp: startTracking_def assertDragging_def Let_def split: option.splits)

theorem startTracking_failures_witness:
  "handleMove (service (threeItems \<lparr>dragOutIsAllowed = None\<rparr> 10)) = None
   \<and> handleUp (service (threeItems \<lparr>dragOutIsAllowed = None\<rparr> 10)) = None
   \<and> downAt (service (threeItems \<lparr>dragOutIsAllowed = None\<rparr> 10)) = None
   \<and> startTracking ''A'' \<lparr> clientX = 50, clientY = 15 \<rparr> (threeItems \<lparr>dragOutIsAllowed = None\<rparr> 10)
       = Inl (NotInDraggingState ''startTracking'',
              (threeItems \<lparr>dragOutIsAllowed = None\<rparr> 10)
                \<lparr> service := (service (threeItems \<lparr>dragOutIsAllowed = None\<rparr> 10))
                     \<lparr> isDragging := True, draggingId := Some ''A'' \<rparr> \<rparr>)
   \<and> returned (andThen (dragA \<lparr>dragOutIsAllowed = None\<rparr> 10 \<lparr> clientX = 50, clientY = 15 \<rparr>)
                 (startTracking ''A'' \<lparr> clientX = 50, clientY = 15 \<rparr>)) trace = None"
proof -
  have fresh: "handleMove (service (threeItems \<lparr>dragOutIsAllowed = None\<rparr> 10)) = None
     \<and> handleUp (service (threeItems \<lparr>dragOutIsAllowed = None\<rparr> 10)) = None
     \<and> downAt (service (threeItems \<lparr>dragOutIsAllowed = None\<rparr> 10)) = None"
    by (simp add: threeItems_def renderedItems_def useOrderableList_service_def
          new_DragService_def)
  obtain w where w: "dragA \<lparr>dragOutIsAllowed = None\<rparr> 10 \<lparr> clientX = 50, clientY = 15 \<rparr> = Inr w"
    and hm: "handleMove (service w) = Some HandleMove"
    by (simp add: scenario_defs)
  show ?thesis
    using fresh w hm
      startTracking_failures [where w = "threeItems \<lparr>dragOutIsAllowed = None\<rparr> 10"
        and id' = "''A''" and event = "\<lparr> clientX = 50, clientY = 15 \<rparr>"]
      startTracking_failures [where w = w
        and id' = "''A''" and event = "\<lparr> clientX = 50, clientY = 15 \<rparr>"]
    by (simp add: andThen_def returned_def)
qed

section \<open>The committed order\<close>

text \<open>Facts about the helpers: what \<^verbatim>\<open>findIndex\<close> returns, and what \<^verbatim>\<open>without\<close>
  removes.\<close>

lemma findIndex_none: "\<forall>v\<in>set vs. \<not> p v \<Longrightarrow> findIndex p vs = -1"
  by (induction vs) simp_all

lemma without_removeAll: "without vs v = removeAll v vs"
  by (induction vs) (auto simp: without_def)

lemma findIndex_first:
  "\<forall>a\<in>set as. \<not> p a \<Longrightarrow> p b \<Longrightarrow> findIndex p (as @ b # bs) = int (length as)"
  by (induction as) (simp_all add: Let_def)

lemma without_absent: "v \<notin> set vs \<Longrightarrow> without vs v = vs"
  by (auto simp: without_def filter_id_conv)

lemma without_append: "without (xs @ ys) v = without xs v @ without ys v"
  by (simp add: without_def)

lemma mset_without:
  "distinct vs \<Longrightarrow> v \<in> set vs \<Longrightarrow> add_mset v (mset (without vs v)) = mset vs"
  by (simp add: without_removeAll distinct_remove1_removeAll [symmetric])

text \<open>
  C3, as the code has it. Let the ordered identifiers be distinct, contain the dragged
  identifier and contain exactly one placeholder identifier, and let them be \<open>before\<close>,
  the placeholder, \<open>after\<close>. The order the release commits when the placeholder is not
  ejected is \<open>before\<close> without the dragged identifier, then the dragged identifier,
  then \<open>after\<close> without it: the dragged identifier stands where the placeholder stood.
  That order has the same identifiers, each as often, as the sequence with the
  placeholder filtered out, it has no duplicates, and every identifier but the dragged
  one keeps its place relative to the others. So at most one identifier has moved, the
  dragged one.
\<close>

theorem reorderedIds_permutation:
  assumes dist: "distinct ids"
    and din: "droppedId \<in> set ids"
    and one: "length (filter isPlaceholderId ids) = 1"
  shows "\<exists>before ph after.
           ids = before @ ph # after \<and> isPlaceholderId ph
         \<and> withoutPlaceholderIds ids = before @ after
         \<and> reorderedIds ids droppedId =
             (if droppedId = ph then before @ after
              else without before droppedId @ droppedId # without after droppedId)
         \<and> mset (reorderedIds ids droppedId) = mset (withoutPlaceholderIds ids)
         \<and> distinct (reorderedIds ids droppedId)
         \<and> without (reorderedIds ids droppedId) droppedId
             = without (withoutPlaceholderIds ids) droppedId"
proof -
  from one obtain q where q: "filter isPlaceholderId ids = [q]"
    by (cases "filter isPlaceholderId ids") auto
  then have "q \<in> set (filter isPlaceholderId ids)" by simp
  then have qin: "q \<in> set ids" and phq: "isPlaceholderId q" by simp_all
  have only: "x = q" if "x \<in> set ids" "isPlaceholderId x" for x
  proof -
    from that have "x \<in> set (filter isPlaceholderId ids)" by simp
    then show ?thesis by (simp add: q)
  qed
  from qin obtain pre post where ids: "ids = pre @ q # post"
    by (auto dest: split_list)
  have dpp: "distinct (pre @ post)" and qpre: "q \<notin> set pre" and qpost: "q \<notin> set post"
    using dist by (auto simp: ids)
  have nopre: "\<forall>a\<in>set pre. \<not> isPlaceholderId a" and nopost: "\<forall>a\<in>set post. \<not> isPlaceholderId a"
    using only qpre qpost by (auto simp: ids)
  have filtered: "withoutPlaceholderIds ids = pre @ post"
    using nopre nopost phq by (simp add: withoutPlaceholderIds_def ids)
  have result: "reorderedIds ids droppedId =
             (if droppedId = q then pre @ post
              else without pre droppedId @ droppedId # without post droppedId)"
  proof (cases "droppedId = q")
    case True
    have "without (q # post) q = post"
      using qpost by (simp add: without_def filter_id_conv) auto
    then have xs: "without ids q = pre @ post"
      using qpre by (simp add: ids without_append without_absent)
    have "findIndex isPlaceholderId (pre @ post) = -1"
      using nopre nopost by (intro findIndex_none) auto
    then show ?thesis using True by (simp add: reorderedIds_def xs Let_def)
  next
    case False
    have xs: "without ids droppedId = without pre droppedId @ q # without post droppedId"
      using False by (simp add: ids without_def)
    have "\<forall>a\<in>set (without pre droppedId). \<not> isPlaceholderId a"
      using nopre by (simp add: without_def)
    then have "findIndex isPlaceholderId (without ids droppedId)
                 = int (length (without pre droppedId))"
      unfolding xs using phq by (rule findIndex_first)
    then show ?thesis using False by (simp add: reorderedIds_def xs Let_def)
  qed
  have perm: "mset (reorderedIds ids droppedId) = mset (pre @ post)"
  proof (cases "droppedId = q")
    case True
    show ?thesis unfolding result using True by simp
  next
    case False
    then have "droppedId \<in> set (pre @ post)" using din by (auto simp: ids)
    with dpp have "add_mset droppedId (mset (without (pre @ post) droppedId)) = mset (pre @ post)"
      by (rule mset_without)
    then show ?thesis unfolding result using False by (simp add: without_append)
  qed
  have nodup: "distinct (reorderedIds ids droppedId)"
  proof (cases "droppedId = q")
    case True
    show ?thesis unfolding result using True dpp by simp
  next
    case False
    have "distinct (without (pre @ post) droppedId)"
      using dpp unfolding without_def by (rule distinct_filter)
    moreover have "droppedId \<notin> set (without (pre @ post) droppedId)" by (simp add: without_def)
    ultimately show ?thesis unfolding result using False by (auto simp: without_append)
  qed
  have others: "without (reorderedIds ids droppedId) droppedId = without (pre @ post) droppedId"
    unfolding result by (auto simp: without_def)
  from ids phq filtered result perm nodup others show ?thesis
    by (intro exI [of _ pre] exI [of _ q] exI [of _ post]) simp
qed

theorem reorderedIds_permutation_witness:
  "distinct [''A'', ''B'', ''rhah-placeholder-x'', ''C'']
   \<and> ''A'' \<in> set [''A'', ''B'', ''rhah-placeholder-x'', ''C'']
   \<and> length (filter isPlaceholderId [''A'', ''B'', ''rhah-placeholder-x'', ''C'']) = 1
   \<and> reorderedIds [''A'', ''B'', ''rhah-placeholder-x'', ''C''] ''A'' = [''B'', ''A'', ''C'']
   \<and> withoutPlaceholderIds [''A'', ''B'', ''rhah-placeholder-x'', ''C''] = [''A'', ''B'', ''C'']
   \<and> mset (reorderedIds [''A'', ''B'', ''rhah-placeholder-x'', ''C''] ''A'')
       = mset (withoutPlaceholderIds [''A'', ''B'', ''rhah-placeholder-x'', ''C''])"
proof -
  have a: "distinct [''A'', ''B'', ''rhah-placeholder-x'', ''C'']" by simp
  have b: "''A'' \<in> set [''A'', ''B'', ''rhah-placeholder-x'', ''C'']" by simp
  have c: "length (filter isPlaceholderId [''A'', ''B'', ''rhah-placeholder-x'', ''C'']) = 1"
    by (simp add: isPlaceholderId_def)
  have d: "reorderedIds [''A'', ''B'', ''rhah-placeholder-x'', ''C''] ''A'' = [''B'', ''A'', ''C'']"
    by (simp add: reorderedIds_def without_def isPlaceholderId_def Let_def)
  have e: "withoutPlaceholderIds [''A'', ''B'', ''rhah-placeholder-x'', ''C''] = [''A'', ''B'', ''C'']"
    by (simp add: withoutPlaceholderIds_def isPlaceholderId_def)
  from reorderedIds_permutation [OF a b c] have
    "mset (reorderedIds [''A'', ''B'', ''rhah-placeholder-x'', ''C''] ''A'')
       = mset (withoutPlaceholderIds [''A'', ''B'', ''rhah-placeholder-x'', ''C''])"
    by blast
  with a b c d e show ?thesis by simp
qed

text \<open>
  The claim as stated fails on "exactly one moved": where the placeholder stands directly
  after the dragged identifier, as after a short drag of \<open>A\<close>, the committed order is
  the sequence with the placeholder filtered out, and no identifier has moved.
\<close>

theorem reorderedIds_nothing_moved_counterexample:
  "distinct [''A'', ''rhah-placeholder-x'', ''B'', ''C'']
   \<and> ''A'' \<in> set [''A'', ''rhah-placeholder-x'', ''B'', ''C'']
   \<and> length (filter isPlaceholderId [''A'', ''rhah-placeholder-x'', ''B'', ''C'']) = 1
   \<and> withoutPlaceholderIds [''A'', ''rhah-placeholder-x'', ''B'', ''C''] = [''A'', ''B'', ''C'']
   \<and> reorderedIds [''A'', ''rhah-placeholder-x'', ''B'', ''C''] ''A'' = [''A'', ''B'', ''C'']"
  by (simp add: reorderedIds_def withoutPlaceholderIds_def without_def isPlaceholderId_def Let_def)

section \<open>What a move records\<close>

text \<open>
  C5, as the code has it. While tracking is active (the down point, the down element,
  the down rectangle and the last point are set and the engine is dragging), a move
  event leaves the last point with both coordinates equal to the event's
  \<^verbatim>\<open>clientY\<close>, whether the handler returns or throws from its walk: the source writes
  \<^verbatim>\<open>{ x: event.clientY, y: event.clientY }\<close>. The direction it leaves is as claimed:
  down when \<^verbatim>\<open>clientY\<close> is greater than the last point's \<open>y\<close>, up when it is
  less, and otherwise the previous direction, or down when there is none.
\<close>

theorem handleMouseMove_records:
  assumes p: "downAt (service w) = Some p"
    and el: "downElement (service w) = Some el"
    and r: "downRect (service w) = Some r"
    and dragging: "isDragging (service w)"
    and lp: "lastPoint (service w) = Some lp"
  shows "lastPoint (service (left_behind (handleMouseMove event w)))
           = Some \<lparr> point_x = clientY event, point_y = clientY event \<rparr>
     \<and> lastDirection (service (left_behind (handleMouseMove event w)))
           = Some (if clientY event - point_y lp > 0 then Down
                   else if clientY event - point_y lp < 0 then Up
                   else (case lastDirection (service w) of None \<Rightarrow> Down | Some d \<Rightarrow> d))"
proof -
  define dir where
    "dir = (if clientY event - point_y lp > 0 then Down
            else if clientY event - point_y lp < 0 then Up
            else (case lastDirection (service w) of None \<Rightarrow> Down | Some d \<Rightarrow> d))"
  define w1 where
    "w1 = w\<lparr> service := (service w)
              \<lparr> lastDirection := Some dir,
                lastPoint := Some \<lparr> point_x = clientY event, point_y = clientY event \<rparr> \<rparr> \<rparr>"
  define walked where
    "walked = (if dir = Down
               then walkDown w1 (clientX event - point_x p) (clientY event - point_y p) r 0 0
                      (or_default (placeholderElementIndex (service w1)) (-2),
                       or_default (placeholderItemIndex (service w1)) (-2))
               else walkUp w1 (clientX event - point_x p) (clientY event - point_y p) r
                      (maxElementIndex (service w1))
                      (or_default (placeholderElementIndex (service w1)) (-2),
                       or_default (placeholderItemIndex (service w1)) (-2)))"
  define styled where
    "styled = write_style el (Css ''absolute'')
                (Px (rect_top r + clientY event - point_y p))
                (Px (rect_left r + clientX event - point_x p)) w1"
  have tracking: "assertDragging (service w) ''getMouseMoveHandler'' = Inr (p, el, r, lp)"
    using assms by (simp add: assertDragging_def)
  have position: "getDragElementPosition event (service w1)
      = Inr (Px (rect_top r + clientY event - point_y p),
             Px (rect_left r + clientX event - point_x p))"
    using assms by (simp add: getDragElementPosition_def assertDragging_def w1_def)
  have step: "handleMouseMove event w =
      (case walked of
         Inl e \<Rightarrow> Inl (e, w1)
       | Inr (newElementIndex, newItemIndex) \<Rightarrow>
           if placeholderItemIndex (service styled) \<noteq> Some newItemIndex
           then Inr (styled\<lparr> service := (service styled)
                                \<lparr> placeholderItemIndex := Some newItemIndex,
                                  placeholderElementIndex := Some newElementIndex \<rparr>,
                             trace := trace styled @ [OnDragTo newItemIndex] \<rparr>)
           else Inr styled)"
    unfolding handleMouseMove_def tracking
    by (simp only: sum.case prod.case Let_def dir_def [symmetric] w1_def [symmetric]
          position walked_def [symmetric] styled_def [symmetric])
  have kept: "lastPoint (service w1)
                = Some \<lparr> point_x = clientY event, point_y = clientY event \<rparr>"
      "lastDirection (service w1) = Some dir"
      "service styled = service w1"
    by (simp_all add: w1_def styled_def write_style_def)
  have "lastPoint (service (left_behind (handleMouseMove event w)))
           = Some \<lparr> point_x = clientY event, point_y = clientY event \<rparr>
     \<and> lastDirection (service (left_behind (handleMouseMove event w))) = Some dir"
  proof (cases walked)
    case (Inl failure)
    then show ?thesis
      by (simp add: step left_behind_def kept)
  next
    case (Inr new)
    then show ?thesis
      by (cases new) (simp add: step left_behind_def kept)
  qed
  then show ?thesis by (simp only: dir_def)
qed

theorem handleMouseMove_records_witness:
  "trackA \<lparr>dragOutIsAllowed = None\<rparr> 10 \<lparr>clientX = 60, clientY = 15\<rparr>
     = Inr (left_behind (trackA \<lparr>dragOutIsAllowed = None\<rparr> 10 \<lparr>clientX = 60, clientY = 15\<rparr>))
   \<and> returned (handleMouseMove \<lparr>clientX = 60, clientY = 15\<rparr>
        (left_behind (trackA \<lparr>dragOutIsAllowed = None\<rparr> 10 \<lparr>clientX = 60, clientY = 15\<rparr>)))
        (lastPoint \<circ> service) = Some (Some \<lparr> point_x = 15, point_y = 15 \<rparr>)
   \<and> returned (handleMouseMove \<lparr>clientX = 60, clientY = 15\<rparr>
        (left_behind (trackA \<lparr>dragOutIsAllowed = None\<rparr> 10 \<lparr>clientX = 60, clientY = 15\<rparr>)))
        (lastDirection \<circ> service) = Some (Some Down)"
proof -
  let ?ev = "\<lparr>clientX = 60, clientY = 15\<rparr>"
  let ?w = "left_behind (trackA \<lparr>dragOutIsAllowed = None\<rparr> 10 ?ev)"
  have pre: "downAt (service ?w) = Some \<lparr> point_x = 50, point_y = 5 \<rparr>"
    "downElement (service ?w) = Some 0"
    "downRect (service ?w) = Some (itemRect 10 0)"
    "isDragging (service ?w)"
    "lastPoint (service ?w) = Some \<lparr> point_x = 50, point_y = 5 \<rparr>"
    by (simp_all add: scenario_defs)
  from handleMouseMove_records [OF pre, where event = ?ev] show ?thesis
    by (simp add: scenario_defs)
qed

section \<open>The release\<close>

text \<open>
  C6, as the code has it. With the handlers installed, the down element captured, a
  dragging identifier that is not empty and both placeholder indices set, the release
  handler returns. What it hands to \<^verbatim>\<open>onDragEnd\<close> it hands over in a world \<open>w3\<close>
  in which, in this order, the move listener and the release listener were removed from
  the window and the three style properties of the dragged element were cleared, and
  in which \<^verbatim>\<open>handleMove\<close>, \<^verbatim>\<open>handleUp\<close>, \<^verbatim>\<open>downId\<close>, \<^verbatim>\<open>downAt\<close>,
  \<^verbatim>\<open>lastPoint\<close>, \<^verbatim>\<open>isDragging\<close>, \<^verbatim>\<open>draggingId\<close>, \<^verbatim>\<open>downElement\<close> and
  \<^verbatim>\<open>downRect\<close> are back at their initial values. \<^verbatim>\<open>lastDirection\<close> is not reset:
  it keeps its value (the next press clears it).
\<close>

theorem handleUp_resets:
  assumes hm: "handleMove (service w) = Some hm"
    and hu: "handleUp (service w) = Some hu"
    and el: "downElement (service w) = Some el"
    and dr: "draggingId (service w) = Some droppedId"
    and ne: "droppedId \<noteq> []"
    and pii: "placeholderItemIndex (service w) = Some pii"
    and pei: "placeholderElementIndex (service w) = Some pei"
  shows "\<exists>w3. handleUp_closure w =
            Inr (call_onDragEnd
                  (if pii = -2 then withoutPlaceholderIds (orderedElementIds (service w))
                   else reorderedIds (orderedElementIds (service w)) droppedId) w3)
     \<and> trace w3 = trace w @
          [RemoveEventListener ''mousemove'' hm, RemoveEventListener ''mouseup'' hu,
           StyleWrite el ''position'' (Css []), StyleWrite el ''top'' (Css []),
           StyleWrite el ''left'' (Css [])]
     \<and> (''mousemove'', hm) \<notin> set (window_listeners w3)
     \<and> (''mouseup'', hu) \<notin> set (window_listeners w3)
     \<and> style_position (document w3 el) = Css []
     \<and> style_top (document w3 el) = Css []
     \<and> style_left (document w3 el) = Css []
     \<and> handleMove (service w3) = None \<and> handleUp (service w3) = None
     \<and> downId (service w3) = None \<and> downAt (service w3) = None
     \<and> lastPoint (service w3) = None \<and> \<not> isDragging (service w3)
     \<and> draggingId (service w3) = None \<and> downElement (service w3) = None
     \<and> downRect (service w3) = None
     \<and> lastDirection (service w3) = lastDirection (service w)"
proof -
  define w3 where
    "w3 = (write_style el (Css []) (Css []) (Css [])
             (removeEventListener ''mouseup'' hu (removeEventListener ''mousemove'' hm w)))
          \<lparr> service := clearDragState (service w) \<rparr>"
  have run: "handleUp_closure w =
            Inr (call_onDragEnd
                  (if pii = -2 then withoutPlaceholderIds (orderedElementIds (service w))
                   else reorderedIds (orderedElementIds (service w)) droppedId) w3)"
    using assms
    by (simp add: handleUp_closure_def w3_def Let_def write_style_def removeEventListener_def
          clearDragState_def)
  have rest: "trace w3 = trace w @
          [RemoveEventListener ''mousemove'' hm, RemoveEventListener ''mouseup'' hu,
           StyleWrite el ''position'' (Css []), StyleWrite el ''top'' (Css []),
           StyleWrite el ''left'' (Css [])]"
      "(''mousemove'', hm) \<notin> set (window_listeners w3)"
      "(''mouseup'', hu) \<notin> set (window_listeners w3)"
      "style_position (document w3 el) = Css []"
      "style_top (document w3 el) = Css []"
      "style_left (document w3 el) = Css []"
    by (simp_all add: w3_def write_style_def removeEventListener_def)
  have fields: "handleMove (service w3) = None" "handleUp (service w3) = None"
      "downId (service w3) = None" "downAt (service w3) = None"
      "lastPoint (service w3) = None" "\<not> isDragging (service w3)"
      "draggingId (service w3) = None" "downElement (service w3) = None"
      "downRect (service w3) = None"
      "lastDirection (service w3) = lastDirection (service w)"
    by (simp_all add: w3_def clearDragState_def)
  from run rest fields show ?thesis by blast
qed

theorem handleUp_resets_witness:
  "draggedA \<lparr>dragOutIsAllowed = None\<rparr> 10 \<lparr>clientX = 50, clientY = 15\<rparr>
     = Inr (left_behind (draggedA \<lparr>dragOutIsAllowed = None\<rparr> 10 \<lparr>clientX = 50, clientY = 15\<rparr>))
   \<and> returned (handleUp_closure
        (left_behind (draggedA \<lparr>dragOutIsAllowed = None\<rparr> 10 \<lparr>clientX = 50, clientY = 15\<rparr>)))
      trace
    = Some [AddEventListener ''mousemove'' HandleMove, AddEventListener ''mouseup'' HandleUp,
            StyleWrite 0 ''position'' (Css ''absolute''), StyleWrite 0 ''top'' (Px 10),
            StyleWrite 0 ''left'' (Px 0), OnDragTo 2,
            RemoveEventListener ''mousemove'' HandleMove,
            RemoveEventListener ''mouseup'' HandleUp,
            StyleWrite 0 ''position'' (Css []), StyleWrite 0 ''top'' (Css []),
            StyleWrite 0 ''left'' (Css []), OnDragEnd [''B'', ''A'', ''C'']]
   \<and> returned (handleUp_closure
        (left_behind (draggedA \<lparr>dragOutIsAllowed = None\<rparr> 10 \<lparr>clientX = 50, clientY = 15\<rparr>)))
      (downAt \<circ> service) = Some None"
proof -
  let ?w = "left_behind (draggedA \<lparr>dragOutIsAllowed = None\<rparr> 10 \<lparr>clientX = 50, clientY = 15\<rparr>)"
  have pre: "handleMove (service ?w) = Some HandleMove" "handleUp (service ?w) = Some HandleUp"
    "downElement (service ?w) = Some 0" "draggingId (service ?w) = Some ''A''" "''A'' \<noteq> []"
    "placeholderItemIndex (service ?w) = Some 2" "placeholderElementIndex (service ?w) = Some 2"
    by (simp_all add: scenario_defs)
  from handleUp_resets [OF pre] show ?thesis
    by (simp add: scenario_defs)
qed

text \<open>
  The claim as stated fails on the fields the handler does not write: after the drag of
  \<open>A\<close> past \<open>B\<close> and the release, the last direction is still \<open>down\<close> and both
  placeholder indices are still \<open>2\<close>, where a new engine has none of the three.
\<close>

theorem handleUp_keeps_lastDirection_counterexample:
  "returned (dragA_release \<lparr>dragOutIsAllowed = None\<rparr> 10 \<lparr>clientX = 50, clientY = 15\<rparr>)
      (lastDirection \<circ> service) = Some (Some Down)
   \<and> returned (dragA_release \<lparr>dragOutIsAllowed = None\<rparr> 10 \<lparr>clientX = 50, clientY = 15\<rparr>)
      (placeholderItemIndex \<circ> service) = Some (Some 2)
   \<and> returned (dragA_release \<lparr>dragOutIsAllowed = None\<rparr> 10 \<lparr>clientX = 50, clientY = 15\<rparr>)
      (placeholderElementIndex \<circ> service) = Some (Some 2)
   \<and> lastDirection (new_DragService [''A'', ''B'', ''C''] True) = None
   \<and> placeholderItemIndex (new_DragService [''A'', ''B'', ''C''] True) = None
   \<and> placeholderElementIndex (new_DragService [''A'', ''B'', ''C''] True) = None"
  by (simp add: scenario_defs)

text \<open>
  C1, as the code has it. A release in the ejected state (\<^verbatim>\<open>placeholderItemIndex\<close> is
  \<open>-2\<close>), with the preconditions of the release met, returns, and the order it hands
  to \<^verbatim>\<open>onDragEnd\<close>, as its last effect, is the ordered identifiers with the
  placeholder identifiers filtered out and nothing else removed: a dragged identifier
  that is in the sequence and is no placeholder identifier is in the committed order.
\<close>

theorem handleUp_ejected:
  assumes hm: "handleMove (service w) = Some hm"
    and hu: "handleUp (service w) = Some hu"
    and el: "downElement (service w) = Some el"
    and dr: "draggingId (service w) = Some droppedId"
    and ne: "droppedId \<noteq> []"
    and pii: "placeholderItemIndex (service w) = Some (-2)"
    and pei: "placeholderElementIndex (service w) = Some pei"
  shows "\<exists>w' committed.
           handleUp_closure w = Inr w'
         \<and> trace w' = trace w @
             [RemoveEventListener ''mousemove'' hm, RemoveEventListener ''mouseup'' hu,
              StyleWrite el ''position'' (Css []), StyleWrite el ''top'' (Css []),
              StyleWrite el ''left'' (Css []), OnDragEnd committed]
         \<and> committed = filter (\<lambda>id'. \<not> isPlaceholderId id') (orderedElementIds (service w))
         \<and> (droppedId \<in> set (orderedElementIds (service w)) \<and> \<not> isPlaceholderId droppedId
              \<longrightarrow> droppedId \<in> set committed)"
  using assms
  by (simp add: handleUp_closure_def Let_def write_style_def removeEventListener_def
        clearDragState_def call_onDragEnd_def withoutPlaceholderIds_def)

theorem handleUp_ejected_witness:
  "gestureA \<lparr>dragOutIsAllowed = None\<rparr> 10 50 5 \<lparr>clientX = 50, clientY = 6\<rparr>
       [\<lparr>clientX = 50, clientY = 100\<rparr>]
     = Inr (left_behind (gestureA \<lparr>dragOutIsAllowed = None\<rparr> 10 50 5 \<lparr>clientX = 50, clientY = 6\<rparr>
              [\<lparr>clientX = 50, clientY = 100\<rparr>]))
   \<and> returned (gestureA \<lparr>dragOutIsAllowed = None\<rparr> 10 50 5 \<lparr>clientX = 50, clientY = 6\<rparr>
                [\<lparr>clientX = 50, clientY = 100\<rparr>]) (reportedIndices \<circ> trace) = Some [1, - 2]
   \<and> returned (handleUp_closure
        (left_behind (gestureA \<lparr>dragOutIsAllowed = None\<rparr> 10 50 5 \<lparr>clientX = 50, clientY = 6\<rparr>
              [\<lparr>clientX = 50, clientY = 100\<rparr>])))
      (last \<circ> trace) = Some (OnDragEnd [''A'', ''B'', ''C''])"
proof -
  let ?w = "left_behind (gestureA \<lparr>dragOutIsAllowed = None\<rparr> 10 50 5 \<lparr>clientX = 50, clientY = 6\<rparr>
              [\<lparr>clientX = 50, clientY = 100\<rparr>])"
  have pre: "handleMove (service ?w) = Some HandleMove" "handleUp (service ?w) = Some HandleUp"
    "downElement (service ?w) = Some 0" "draggingId (service ?w) = Some ''A''" "''A'' \<noteq> []"
    "placeholderItemIndex (service ?w) = Some (-2)" "placeholderElementIndex (service ?w) = Some (-2)"
    by (simp_all add: gesture_defs)
  from handleUp_ejected [OF pre] show ?thesis
    by (simp add: gesture_defs)
qed

text \<open>
  The claim as stated fails twice on the drag of \<open>A\<close> to far below the list. With
  ejection forbidden by the option, the move still reports the sentinel \<open>-2\<close> and the
  release still goes through the ejected branch; and with either setting of the option
  the order committed is \<open>A, B, C\<close>: the dragged identifier is not excluded.
\<close>

theorem ejected_release_keeps_dragged_counterexample:
  "returned (dragA \<lparr>dragOutIsAllowed = Some False\<rparr> 10 \<lparr>clientX = 50, clientY = 100\<rparr>)
      (placeholderItemIndex \<circ> service) = Some (Some (- 2))
   \<and> returned (dragA_release \<lparr>dragOutIsAllowed = Some False\<rparr> 10 \<lparr>clientX = 50, clientY = 100\<rparr>)
      (last \<circ> trace) = Some (OnDragEnd [''A'', ''B'', ''C''])
   \<and> returned (dragA \<lparr>dragOutIsAllowed = Some True\<rparr> 10 \<lparr>clientX = 50, clientY = 100\<rparr>)
      (placeholderItemIndex \<circ> service) = Some (Some (- 2))
   \<and> returned (dragA_release \<lparr>dragOutIsAllowed = Some True\<rparr> 10 \<lparr>clientX = 50, clientY = 100\<rparr>)
      (last \<circ> trace) = Some (OnDragEnd [''A'', ''B'', ''C''])"
  by (simp add: scenario_defs)

section \<open>The placeholder at index 0\<close>

text \<open>
  C10. While tracking, let both placeholder indices be \<open>0\<close>. Then the candidate the
  move handler starts from is \<open>-2\<close> for both (\<^verbatim>\<open>0 || -2\<close>), and \<^verbatim>\<open>getItemIndex\<close>
  of the upward walk answers as if there were no placeholder. So when the pointer moves
  down, the registry has more than one slot and its first element is not intruded on,
  the walk stops at once, and the handler reports \<open>-2\<close> and records it as both
  placeholder indices, where the index was \<open>0\<close> before.
\<close>

theorem placeholder_zero_reads_as_absent:
  assumes p: "downAt (service w) = Some p"
    and el: "downElement (service w) = Some el"
    and r: "downRect (service w) = Some r"
    and dragging: "isDragging (service w)"
    and lp: "lastPoint (service w) = Some lp"
    and down: "clientY event > point_y lp"
    and item0: "placeholderItemIndex (service w) = Some 0"
    and elem0: "placeholderElementIndex (service w) = Some 0"
    and more: "maxElementIndex (service w) \<ge> 1"
    and first: "array_get (elements (service w)) 0 = Some h0"
    and env: "NODE_ENV w \<noteq> ''test''"
    and outside: "\<not> intrudesDown (clientY event - point_y p) r (boundingClientRect (document w h0))"
  shows "or_default (placeholderElementIndex (service w)) (-2) = -2
     \<and> or_default (placeholderItemIndex (service w)) (-2) = -2
     \<and> getItemIndex (placeholderElementIndex (service w)) elementIndex
         = getItemIndex None elementIndex
     \<and> (\<exists>w'. handleMouseMove event w = Inr w'
          \<and> placeholderItemIndex (service w') = Some (-2)
          \<and> placeholderElementIndex (service w') = Some (-2)
          \<and> trace w' = trace w @
               [StyleWrite el ''position'' (Css ''absolute''),
                StyleWrite el ''top'' (Px (rect_top r + clientY event - point_y p)),
                StyleWrite el ''left'' (Px (rect_left r + clientX event - point_x p)),
                OnDragTo (-2)])"
proof -
  have a: "or_default (placeholderElementIndex (service w)) (-2) = -2"
    "or_default (placeholderItemIndex (service w)) (-2) = -2"
    by (simp_all add: or_default_def item0 elem0)
  have b: "getItemIndex (placeholderElementIndex (service w)) elementIndex
         = getItemIndex None elementIndex"
    by (simp add: getItemIndex_def elem0)
  let ?w1 = "w\<lparr> service := (service w)
                \<lparr> lastDirection := Some Down,
                  lastPoint := Some \<lparr> point_x = clientY event, point_y = clientY event \<rparr> \<rparr> \<rparr>"
  have walk: "walkDown ?w1 (clientX event - point_x p) (clientY event - point_y p) r 0 0 (-2, -2)
                = Inr (-2, -2)"
    using more first env outside
    by (subst walkDown.simps) (simp add: getRect_def)
  have c: "\<exists>w'. handleMouseMove event w = Inr w'
          \<and> placeholderItemIndex (service w') = Some (-2)
          \<and> placeholderElementIndex (service w') = Some (-2)
          \<and> trace w' = trace w @
               [StyleWrite el ''position'' (Css ''absolute''),
                StyleWrite el ''top'' (Px (rect_top r + clientY event - point_y p)),
                StyleWrite el ''left'' (Px (rect_left r + clientX event - point_x p)),
                OnDragTo (-2)]"
    using p el r dragging lp down item0 elem0 walk
    by (simp add: handleMouseMove_def assertDragging_def getDragElementPosition_def Let_def
          or_default_def write_style_def)
  from a b c show ?thesis by blast
qed

theorem placeholder_zero_reads_as_absent_witness:
  "placeholderOnTop = Inr (left_behind placeholderOnTop)
   \<and> returned placeholderOnTop (placeholderItemIndex \<circ> service) = Some (Some 0)
   \<and> returned placeholderOnTop (placeholderElementIndex \<circ> service) = Some (Some 0)
   \<and> \<not> intrudesDown (0 - 15) (itemRect 10 1) (itemRect 10 0)
   \<and> returned (handleMouseMove \<lparr> clientX = 50, clientY = 0 \<rparr> (left_behind placeholderOnTop))
        (placeholderItemIndex \<circ> service) = Some (Some (- 2))
   \<and> returned (handleMouseMove \<lparr> clientX = 50, clientY = 0 \<rparr> (left_behind placeholderOnTop))
        (last \<circ> trace) = Some (OnDragTo (- 2))"
proof -
  let ?w = "left_behind placeholderOnTop"
  have pre: "downAt (service ?w) = Some \<lparr> point_x = 50, point_y = 15 \<rparr>"
    "downElement (service ?w) = Some 1"
    "downRect (service ?w) = Some (itemRect 10 1)"
    "isDragging (service ?w)"
    "lastPoint (service ?w) = Some \<lparr> point_x = - 1, point_y = - 1 \<rparr>"
    "clientY \<lparr> clientX = 50, clientY = 0 \<rparr> > point_y \<lparr> point_x = - 1, point_y = - 1 \<rparr>"
    "placeholderItemIndex (service ?w) = Some 0"
    "placeholderElementIndex (service ?w) = Some 0"
    "maxElementIndex (service ?w) \<ge> 1"
    "array_get (elements (service ?w)) 0 = Some 3"
    "NODE_ENV ?w \<noteq> ''test''"
    "\<not> intrudesDown (clientY \<lparr> clientX = 50, clientY = 0 \<rparr> - point_y \<lparr> point_x = 50, point_y = 15 \<rparr>)
         (itemRect 10 1) (boundingClientRect (document ?w 3))"
    by (simp_all add: scenario_defs)
  from placeholder_zero_reads_as_absent [OF pre] show ?thesis
    by (simp add: scenario_defs)
qed

section \<open>Dragging the first item past the second\<close>













end
